theory Spec2Isabelle
  imports Main
begin

section \<open>The OPTIMADE query filter widget (aiidalab_optimade/query_filter.py)\<close>

text \<open>
  A shallow embedding of \<^verbatim>\<open>OptimadeQueryFilterWidget\<close>: the widget's attributes are a
  record that every method takes and returns, an exception is a value of \<open>exn\<close>, and
  the HTTP layer is a parameter \<open>net\<close> that answers every request.  The helpers the module
  imports from \<^verbatim>\<open>aiidalab_optimade.utils\<close> and \<^verbatim>\<open>aiidalab_optimade.subwidgets\<close> are not
  part of the sources at hand; they are modelled from the specification and marked so.
\<close>

subsection \<open>Response bodies\<close>

text \<open>
  One element of \<^verbatim>\<open>response["data"]\<close>, as \<^verbatim>\<open>Structure(entry)\<close> exposes it: the
  identifier and the four chemical formula attributes, each of which may be \<^verbatim>\<open>None\<close>.
\<close>

record entry =
  entry_id :: string
  chemical_formula_descriptive :: "string option"
  chemical_formula_reduced :: "string option"
  chemical_formula_anonymous :: "string option"
  chemical_formula_hill :: "string option"

record api_error =
  title :: string
  detail :: string
  status :: string

record response_meta =
  api_version :: "string option"
  data_returned :: "int option"

record page_links =
  links_next :: "string option"

text \<open>
  A decoded JSON body.  A key that the body does not hold is \<open>None\<close>.  The \<^verbatim>\<open>errors\<close>
  section is a collection of error objects; \<open>Some []\<close> is the empty section, which is what
  the source's \<^verbatim>\<open>{"errors": {}}\<close> holds.
\<close>

record response =
  errors :: "api_error list option"
  data :: "entry list option"
  meta :: "response_meta option"
  links :: "page_links option"

text \<open>
  What \<^verbatim>\<open>_query\<close> hands back: a body, or the marker of a failed transport with the text
  of the underlying error.  The marker holds none of the keys of a body.
\<close>

datatype raw_response = TransportFailed string | Body response

definition raw_data :: "raw_response \<Rightarrow> entry list option" where
  "raw_data raw = (case raw of TransportFailed t \<Rightarrow> None | Body r \<Rightarrow> data r)"

definition raw_meta :: "raw_response \<Rightarrow> response_meta option" where
  "raw_meta raw = (case raw of TransportFailed t \<Rightarrow> None | Body r \<Rightarrow> meta r)"

definition raw_links :: "raw_response \<Rightarrow> page_links option" where
  "raw_links raw = (case raw of TransportFailed t \<Rightarrow> None | Body r \<Rightarrow> links r)"

subsection \<open>Requests and the network\<close>

text \<open>The keyword arguments \<^verbatim>\<open>queries\<close> that \<^verbatim>\<open>_query\<close> passes to
  \<^verbatim>\<open>perform_optimade_query\<close>.\<close>

record queries =
  q_base_url :: string
  q_filter :: string
  q_format :: string
  q_email :: "string option"
  q_fields :: "string option"
  q_limit :: int
  q_offset :: int

datatype request = GetLink string | GetQuery queries

text \<open>
  What one HTTP GET can do: fail on the way (connection error, timeout), deliver a body
  that is not JSON, or deliver a JSON body.
\<close>

datatype http_result = ConnectionFailed string | NotJSON | JSON response

type_synonym network = "request \<Rightarrow> http_result"

subsection \<open>Exceptions, messages, outcomes\<close>

datatype exn =
    BadResource entry
  | KeyError string
  | TypeError
  | ConnectionError string
  | VersionError string
  | ProcessingFault "string list"

text \<open>
  The value of \<^verbatim>\<open>error_or_status_messages\<close>, kept structured: \<open>NoMsg\<close> is the empty
  (falsy) string, the other two are the error variants that \<^verbatim>\<open>handle_errors\<close> reports.
\<close>

datatype message = NoMsg | TransportError string | ApiError "string list" "string option"

text \<open>
  Both commands return \<^verbatim>\<open>None\<close> in Python; the model returns the path they took: the
  results were set from a response, a message was displayed and the method returned early,
  or an exception left the method.
\<close>

datatype outcome = Success raw_response | ErrorDisplayed message | Raised exn

subsection \<open>The widget's state\<close>

record button =
  description :: string
  icon :: string
  tooltip :: string
  disabled :: bool

text \<open>
  The \<^verbatim>\<open>ResultsPageChooser\<close>: whether it is frozen, and the pagination data it keeps
  (the specification's \<open>totalCount\<close> and \<open>nextLink\<close>).
\<close>

record results_page_chooser =
  chooser_frozen :: bool
  total_count :: "int option"
  next_link :: "string option"

text \<open>
  The attributes of the widget.  \<open>filters_value\<close> is what \<^verbatim>\<open>self.filters.collect_value()\<close>
  returns; \<open>database\<close> is the trait \<^verbatim>\<open>(name, dict or None)\<close>, the dictionary as an
  association list; \<open>sent\<close> lists the HTTP requests issued so far, oldest first.
\<close>

record widget =
  debug :: bool
  page_limit :: int
  offset :: int
  database :: "string \<times> (string \<times> string) list option"
  filters_value :: string
  filters_frozen :: bool
  query_button :: button
  structure_drop_options :: "(string \<times> entry) list"
  structure_drop_frozen :: bool
  error_or_status_messages :: message
  structure_page_chooser :: results_page_chooser
  sent :: "request list"

subsection \<open>Helpers that the module imports\<close>

text \<open>The body that stands for an undecodable response: \<^verbatim>\<open>{"errors": {}}\<close>.\<close>

definition decode_failed :: response where
  "decode_failed = \<lparr>errors = Some [], data = None, meta = None, links = None\<rparr>"

text \<open>
  Modelled from the spec: \<^verbatim>\<open>perform_optimade_query\<close> of \<^verbatim>\<open>aiidalab_optimade.utils\<close>
  (QueryExecutor).  One GET built from the keyword arguments; a network or timeout failure
  returns the transport-failed marker with the error text, a body that is not JSON returns
  the decode-failed marker with an empty errors section; it never raises.
\<close>

definition perform_optimade_query :: "network \<Rightarrow> queries \<Rightarrow> raw_response" where
  "perform_optimade_query net q =
     (case net (GetQuery q) of
        ConnectionFailed t \<Rightarrow> TransportFailed t
      | NotJSON \<Rightarrow> Body decode_failed
      | JSON r \<Rightarrow> Body r)"

text \<open>
  Modelled from the spec: \<^verbatim>\<open>handle_errors\<close> of \<^verbatim>\<open>aiidalab_optimade.utils\<close>
  (ResponseClassifier, steps 1 to 3).  The transport-failed marker gives a transport error;
  the decode-failed marker (an errors section that is present and empty) gives the API error
  "Unable to decode response"; a non-empty errors collection gives an API error built from
  every error's title, detail and status, or, in strict mode (the \<^verbatim>\<open>debug\<close> flag), raises a
  processing fault; anything else gives the empty message.  \<open>error_text\<close> is the message
  of one error object.
\<close>

definition error_text :: "api_error \<Rightarrow> string" where
  "error_text e = title e @ '': '' @ detail e @ '' ('' @ status e @ '')''"

definition handle_errors :: "raw_response \<Rightarrow> bool \<Rightarrow> exn + message" where
  "handle_errors raw strict =
     (case raw of
        TransportFailed t \<Rightarrow> Inr (TransportError t)
      | Body r \<Rightarrow>
          (case errors r of
             None \<Rightarrow> Inr NoMsg
           | Some [] \<Rightarrow> Inr (ApiError [''Unable to decode response''] None)
           | Some (e # es) \<Rightarrow>
               if strict then Inl (ProcessingFault (map error_text (e # es)))
               else Inr (ApiError (map error_text (e # es)) None)))"

text \<open>
  Modelled from the spec: \<^verbatim>\<open>validate_api_version\<close> of \<^verbatim>\<open>aiidalab_optimade.utils\<close>
  (ResponseClassifier, step 4).  A version that is present (not the empty string that
  \<^verbatim>\<open>retrieve_data\<close> passes for a missing one) must have the major version 1.  The caller
  drops the returned value, so the failure is an exception.
\<close>

definition major_version :: "string \<Rightarrow> string" where
  "major_version v = takeWhile (\<lambda>c. c \<noteq> CHR ''.'') v"

definition validate_api_version :: "string \<Rightarrow> exn + unit" where
  "validate_api_version v =
     (if v = [] then Inr ()
      else if major_version v = ''1'' then Inr ()
      else Inl (VersionError v))"

text \<open>
  Modelled from the spec: \<^verbatim>\<open>ResultsPageChooser.set_pagination_data\<close> of
  \<^verbatim>\<open>aiidalab_optimade.subwidgets\<close> (PaginationTracker).  \<^verbatim>\<open>reset_cache\<close> is the tracker's
  reset of the data it keeps; \<^verbatim>\<open>data_returned\<close>, when passed, is recorded as the total count;
  \<^verbatim>\<open>links_to_page\<close>, when passed, sets the next link from its \<^verbatim>\<open>next\<close> entry.  A keyword
  argument that is not passed is \<open>None\<close>.
\<close>

definition set_pagination_data ::
  "int option \<Rightarrow> page_links option \<Rightarrow> bool \<Rightarrow> results_page_chooser \<Rightarrow> results_page_chooser"
where
  "set_pagination_data data_returned_arg links_to_page reset_cache c =
     (let c1 = (if reset_cache then c\<lparr>total_count := None, next_link := None\<rparr> else c);
          c2 = (case data_returned_arg of None \<Rightarrow> c1 | Some n \<Rightarrow> c1\<lparr>total_count := Some n\<rparr>)
      in case links_to_page of None \<Rightarrow> c2 | Some l \<Rightarrow> c2\<lparr>next_link := links_next l\<rparr>)"

subsection \<open>freeze and unfreeze\<close>

text \<open>
  Modelled from the spec: the \<^verbatim>\<open>freeze\<close> and \<^verbatim>\<open>unfreeze\<close> methods of the three
  sub-widgets (\<^verbatim>\<open>aiidalab_optimade.subwidgets\<close>) set, respectively clear, the sub-widget's
  frozen flag and nothing else.  \<^verbatim>\<open>freeze\<close> and \<^verbatim>\<open>unfreeze\<close> of the widget call them
  and disable, respectively enable, the query button.
\<close>

definition freeze :: "widget \<Rightarrow> widget" where
  "freeze s =
     s\<lparr>query_button := (query_button s)\<lparr>disabled := True\<rparr>,
       filters_frozen := True,
       structure_drop_frozen := True,
       structure_page_chooser := (structure_page_chooser s)\<lparr>chooser_frozen := True\<rparr>\<rparr>"

definition unfreeze :: "widget \<Rightarrow> widget" where
  "unfreeze s =
     s\<lparr>query_button := (query_button s)\<lparr>disabled := False\<rparr>,
       filters_frozen := False,
       structure_drop_frozen := False,
       structure_page_chooser := (structure_page_chooser s)\<lparr>chooser_frozen := False\<rparr>\<rparr>"

subsection \<open>The query helper\<close>

text \<open>\<^verbatim>\<open>str.format\<close> on a template whose only fields are \<^verbatim>\<open>{}\<close>: each is replaced by the
  next argument.\<close>

fun str_format :: "string \<Rightarrow> string list \<Rightarrow> string" where
  "str_format [] args = []"
| "str_format (c # t) args =
     (case (t, args) of
        (d # t', a # args') \<Rightarrow>
          if c = CHR ''{'' \<and> d = CHR ''}'' then a @ str_format t' args'
          else c # str_format t args
      | _ \<Rightarrow> c # str_format t args)"

text \<open>The exclusion predicate \<^verbatim>\<open>add_to_filter\<close> of \<^verbatim>\<open>_query\<close>:
  \<^verbatim>\<open>NOT structure_features HAS ANY "disorder","unknown_positions"\<close>, where \<open>CHR 0x22\<close> is the
  double quote.\<close>

definition add_to_filter :: string where
  "add_to_filter =
     ''NOT structure_features HAS ANY '' @ [CHR 0x22] @ ''disorder'' @ [CHR 0x22] @ '','' @
     [CHR 0x22] @ ''unknown_positions'' @ [CHR 0x22]"

text \<open>The filter that \<^verbatim>\<open>_query\<close> composes; \<^verbatim>\<open>if filter_\<close> is true of every string but
  the empty one.\<close>

definition compose_filter :: "string \<Rightarrow> string" where
  "compose_filter filter_value =
     (if filter_value \<noteq> [] then str_format ''( {} ) AND ( {} )'' [filter_value, add_to_filter]
      else add_to_filter)"

text \<open>
  \<^verbatim>\<open>_query(link)\<close>.  With a link: \<^verbatim>\<open>requests.get(link).json()\<close>, where only
  \<^verbatim>\<open>JSONDecodeError\<close> is caught, so a failing GET raises.  Without one: the keyword
  arguments are built (\<^verbatim>\<open>self.database[1]["base_url"]\<close> raises \<^verbatim>\<open>TypeError\<close> on
  \<^verbatim>\<open>None\<close> and \<^verbatim>\<open>KeyError\<close> on a dictionary without the key) and handed to
  \<^verbatim>\<open>perform_optimade_query\<close>.  The debug print of the filter is left out.
\<close>

definition query :: "network \<Rightarrow> string option \<Rightarrow> widget \<Rightarrow> (exn + raw_response) \<times> widget" where
  "query net link s =
     (case link of
        Some l \<Rightarrow>
          (case net (GetLink l) of
             ConnectionFailed t \<Rightarrow> (Inl (ConnectionError t), s\<lparr>sent := sent s @ [GetLink l]\<rparr>)
           | NotJSON \<Rightarrow> (Inr (Body decode_failed), s\<lparr>sent := sent s @ [GetLink l]\<rparr>)
           | JSON r \<Rightarrow> (Inr (Body r), s\<lparr>sent := sent s @ [GetLink l]\<rparr>))
      | None \<Rightarrow>
          (let filter_value = compose_filter (filters_value s) in
           case snd (database s) of
             None \<Rightarrow> (Inl TypeError, s)
           | Some d \<Rightarrow>
               (case map_of d ''base_url'' of
                  None \<Rightarrow> (Inl (KeyError ''base_url''), s)
                | Some u \<Rightarrow>
                    (let q = \<lparr>q_base_url = u, q_filter = filter_value, q_format = ''json'',
                              q_email = None, q_fields = None,
                              q_limit = page_limit s, q_offset = offset s\<rparr>
                     in (Inr (perform_optimade_query net q),
                         s\<lparr>sent := sent s @ [GetQuery q]\<rparr>)))))"

subsection \<open>Updating the structures dropdown\<close>

text \<open>The first of the four formula attributes that is not \<^verbatim>\<open>None\<close>, in the source's order.\<close>

definition formula_of :: "entry \<Rightarrow> string option" where
  "formula_of e =
     (case chemical_formula_descriptive e of
        Some f \<Rightarrow> Some f
      | None \<Rightarrow>
          (case chemical_formula_reduced e of
             Some f \<Rightarrow> Some f
           | None \<Rightarrow>
               (case chemical_formula_anonymous e of
                  Some f \<Rightarrow> Some f
                | None \<Rightarrow> chemical_formula_hill e)))"

definition entry_name :: "string \<Rightarrow> entry \<Rightarrow> string" where
  "entry_name f e = f @ '' (id='' @ entry_id e @ '')''"

text \<open>The \<^verbatim>\<open>for\<close> loop: \<open>structures\<close> grows by one pair per entry, and an entry without
  any formula raises \<^verbatim>\<open>BadResource\<close>.\<close>

fun collect_structures ::
  "entry list \<Rightarrow> (string \<times> entry) list \<Rightarrow> exn + (string \<times> entry) list"
where
  "collect_structures [] structures = Inr structures"
| "collect_structures (e # es) structures =
     (case formula_of e of
        None \<Rightarrow> Inl (BadResource e)
      | Some f \<Rightarrow> collect_structures es (structures @ [(entry_name f e, e)]))"

definition update_structures :: "entry list \<Rightarrow> widget \<Rightarrow> exn option \<times> widget" where
  "update_structures d s =
     (case collect_structures d [] of
        Inl e \<Rightarrow> (Some e, s)
      | Inr structures \<Rightarrow> (None, s\<lparr>structure_drop_options := structures\<rparr>))"

subsection \<open>The two commands\<close>

text \<open>The \<^verbatim>\<open>finally\<close> block of both methods.\<close>

definition finally_block :: "widget \<Rightarrow> widget" where
  "finally_block s =
     unfreeze (s\<lparr>query_button :=
       (query_button s)\<lparr>description := ''Search'', icon := ''search'', tooltip := ''Search''\<rparr>\<rparr>)"

text \<open>\<^verbatim>\<open>response.get("meta", {}).get("api_version", "")\<close>.\<close>

definition api_version_of :: "raw_response \<Rightarrow> string" where
  "api_version_of raw =
     (case raw_meta raw of
        None \<Rightarrow> []
      | Some m \<Rightarrow> (case api_version m of None \<Rightarrow> [] | Some v \<Rightarrow> v))"

text \<open>\<^verbatim>\<open>response.get("meta", {}).get("data_returned", 0)\<close>.\<close>

definition data_returned_of :: "raw_response \<Rightarrow> int" where
  "data_returned_of raw =
     (case raw_meta raw of
        None \<Rightarrow> 0
      | Some m \<Rightarrow> (case data_returned m of None \<Rightarrow> 0 | Some n \<Rightarrow> n))"

text \<open>\<^verbatim>\<open>response.get("links", {})\<close>.\<close>

definition links_of :: "raw_response \<Rightarrow> page_links" where
  "links_of raw =
     (case raw_links raw of None \<Rightarrow> \<lparr>links_next = None\<rparr> | Some l \<Rightarrow> l)"

text \<open>
  What \<^verbatim>\<open>retrieve_data\<close> does with the response (from \<^verbatim>\<open>handle_errors\<close> to
  \<^verbatim>\<open>set_pagination_data\<close>).  \<^verbatim>\<open>response["data"]\<close> raises \<^verbatim>\<open>KeyError\<close> when the key
  is missing.
\<close>

definition retrieve_data_response :: "raw_response \<Rightarrow> widget \<Rightarrow> outcome \<times> widget" where
  "retrieve_data_response raw s =
     (case handle_errors raw (debug s) of
        Inl e \<Rightarrow> (Raised e, s)
      | Inr msg \<Rightarrow>
          if msg \<noteq> NoMsg then (ErrorDisplayed msg, s\<lparr>error_or_status_messages := msg\<rparr>)
          else
            (case validate_api_version (api_version_of raw) of
               Inl e \<Rightarrow> (Raised e, s)
             | Inr u \<Rightarrow>
                 (case raw_data raw of
                    None \<Rightarrow> (Raised (KeyError ''data''), s)
                  | Some d \<Rightarrow>
                      (case update_structures d s of
                         (Some e, s') \<Rightarrow> (Raised e, s')
                       | (None, s') \<Rightarrow>
                           (Success raw,
                            s'\<lparr>structure_page_chooser :=
                              set_pagination_data (Some (data_returned_of raw))
                                (Some (links_of raw)) True (structure_page_chooser s')\<rparr>)))))"

text \<open>The \<^verbatim>\<open>try\<close> block of \<^verbatim>\<open>retrieve_data\<close>.\<close>

definition retrieve_data_try :: "network \<Rightarrow> widget \<Rightarrow> outcome \<times> widget" where
  "retrieve_data_try net s0 =
     (let s1 = freeze s0;
          s2 = (if error_or_status_messages s1 \<noteq> NoMsg
                then s1\<lparr>error_or_status_messages := NoMsg\<rparr> else s1);
          s3 = s2\<lparr>query_button := (query_button s2)\<lparr>description := ''Querying ... '',
                  icon := ''cog'', tooltip := ''Please wait ...''\<rparr>\<rparr>
      in case query net None s3 of
           (Inl e, s4) \<Rightarrow> (Raised e, s4)
         | (Inr raw, s4) \<Rightarrow> retrieve_data_response raw s4)"

text \<open>\<^verbatim>\<open>retrieve_data\<close>: the \<^verbatim>\<open>try\<close> block, then the \<^verbatim>\<open>finally\<close> block whatever
  happened.\<close>

definition retrieve_data :: "network \<Rightarrow> widget \<Rightarrow> outcome \<times> widget" where
  "retrieve_data net s =
     (case retrieve_data_try net s of (out, s') \<Rightarrow> (out, finally_block s'))"

text \<open>The new value of the trait that \<^verbatim>\<open>_get_more_results\<close> observes: an offset or a link.\<close>

datatype target = Offset int | Link string

text \<open>
  What \<^verbatim>\<open>_get_more_results\<close> does with the response: as above, without the version check,
  and \<^verbatim>\<open>set_pagination_data\<close> is passed the links only.
\<close>

definition get_more_results_response :: "raw_response \<Rightarrow> widget \<Rightarrow> outcome \<times> widget" where
  "get_more_results_response raw s =
     (case handle_errors raw (debug s) of
        Inl e \<Rightarrow> (Raised e, s)
      | Inr msg \<Rightarrow>
          if msg \<noteq> NoMsg then (ErrorDisplayed msg, s\<lparr>error_or_status_messages := msg\<rparr>)
          else
            (case raw_data raw of
               None \<Rightarrow> (Raised (KeyError ''data''), s)
             | Some d \<Rightarrow>
                 (case update_structures d s of
                    (Some e, s') \<Rightarrow> (Raised e, s')
                  | (None, s') \<Rightarrow>
                      (Success raw,
                       s'\<lparr>structure_page_chooser :=
                         set_pagination_data None (Some (links_of raw)) False
                           (structure_page_chooser s')\<rparr>))))"

text \<open>The \<^verbatim>\<open>try\<close> block of \<^verbatim>\<open>_get_more_results\<close>, entered with the link or \<^verbatim>\<open>None\<close>.\<close>

definition get_more_results_try :: "network \<Rightarrow> string option \<Rightarrow> widget \<Rightarrow> outcome \<times> widget" where
  "get_more_results_try net offset_or_link s0 =
     (let s1 = freeze s0;
          s2 = s1\<lparr>query_button := (query_button s1)\<lparr>description := ''Updating ... '',
                  icon := ''cog'', tooltip := ''Please wait ...''\<rparr>\<rparr>
      in case query net offset_or_link s2 of
           (Inl e, s3) \<Rightarrow> (Raised e, s3)
         | (Inr raw, s3) \<Rightarrow> get_more_results_response raw s3)"

text \<open>
  \<^verbatim>\<open>_get_more_results\<close>: an integer is stored in \<^verbatim>\<open>self.offset\<close> before the \<^verbatim>\<open>try\<close>
  block and the query runs without a link; a string is the link.
\<close>

definition get_more_results :: "network \<Rightarrow> target \<Rightarrow> widget \<Rightarrow> outcome \<times> widget" where
  "get_more_results net change_new s =
     (case (case change_new of
              Offset n \<Rightarrow> get_more_results_try net None (s\<lparr>offset := n\<rparr>)
            | Link l \<Rightarrow> get_more_results_try net (Some l) s)
      of (out, s') \<Rightarrow> (out, finally_block s'))"

subsection \<open>Construction, database selection and the events\<close>

text \<open>
  \<^verbatim>\<open>__init__(debug, result_limit)\<close>: the attributes that the queries read and write.
  \<^verbatim>\<open>result_limit if result_limit else 10\<close> is 10 for \<^verbatim>\<open>None\<close> and for 0.  No database is
  chosen yet, nothing has been sent, the filters are frozen, the dropdown is disabled, and
  the page chooser holds no pagination data.
\<close>

definition init :: "bool \<Rightarrow> int option \<Rightarrow> widget" where
  "init debug_arg result_limit =
     \<lparr>debug = debug_arg,
      page_limit = (case result_limit of None \<Rightarrow> 10 | Some n \<Rightarrow> if n \<noteq> 0 then n else 10),
      offset = 0,
      database = ([], None),
      filters_value = [],
      filters_frozen = True,
      query_button = \<lparr>description = ''Search'', icon = ''search'',
                       tooltip = ''Search - No database chosen'', disabled = True\<rparr>,
      structure_drop_options = [],
      structure_drop_frozen = True,
      error_or_status_messages = NoMsg,
      structure_page_chooser = \<lparr>chooser_frozen = False, total_count = None, next_link = None\<rparr>,
      sent = []\<rparr>"

text \<open>
  Modelled from the spec: \<^verbatim>\<open>StructureDropdown.reset\<close> (\<^verbatim>\<open>aiidalab_optimade.subwidgets\<close>),
  which the specification leaves to the user interface, is taken to empty the list of
  options.  Assigning the \<^verbatim>\<open>database\<close> trait runs the observer
  \<^verbatim>\<open>_on_database_select\<close>, which enables the query button and the filters when the database
  has a base URL, and resets the dropdown.
\<close>

definition on_database_select :: "widget \<Rightarrow> widget" where
  "on_database_select s =
     (let s1 =
        (if (case snd (database s) of None \<Rightarrow> True | Some d \<Rightarrow> map_of d ''base_url'' = None)
         then s\<lparr>query_button := (query_button s)\<lparr>disabled := True,
                  tooltip := ''Search - No database chosen''\<rparr>,
                filters_frozen := True\<rparr>
         else s\<lparr>query_button := (query_button s)\<lparr>disabled := False, tooltip := ''Search''\<rparr>,
                filters_frozen := False\<rparr>)
      in s1\<lparr>structure_drop_options := []\<rparr>)"

definition select_database :: "string \<times> (string \<times> string) list option \<Rightarrow> widget \<Rightarrow> widget" where
  "select_database db s = on_database_select (s\<lparr>database := db\<rparr>)"

text \<open>
  The events wired in \<^verbatim>\<open>__init__\<close>: a click on the query button or a submit of the
  filters runs \<^verbatim>\<open>retrieve_data\<close>; a change of the page chooser's \<^verbatim>\<open>page_offset\<close> or
  \<^verbatim>\<open>page_link\<close> runs \<^verbatim>\<open>_get_more_results\<close> with the new value.
\<close>

datatype command = NewQuery | AdvancePage target

definition run :: "network \<Rightarrow> command \<Rightarrow> widget \<Rightarrow> outcome \<times> widget" where
  "run net c s =
     (case c of
        NewQuery \<Rightarrow> retrieve_data net s
      | AdvancePage change_new \<Rightarrow> get_more_results net change_new s)"

text \<open>What the command's one call of \<^verbatim>\<open>_query\<close> returns or raises, started in state \<open>s\<close>.\<close>

definition response_of :: "network \<Rightarrow> command \<Rightarrow> widget \<Rightarrow> exn + raw_response" where
  "response_of net c s =
     (case c of
        NewQuery \<Rightarrow> fst (query net None s)
      | AdvancePage (Offset n) \<Rightarrow> fst (query net None (s\<lparr>offset := n\<rparr>))
      | AdvancePage (Link l) \<Rightarrow> fst (query net (Some l) s))"

subsection \<open>Example inputs\<close>

text \<open>
  A widget as constructed, with a database chosen, and the response of the
  specification's end-to-end example: one record with a descriptive formula.
\<close>

definition example_widget :: widget where
  "example_widget =
     select_database (''example'', Some [(''base_url'', ''https://example.org/optimade'')])
       (init False None)"

definition sio2 :: entry where
  "sio2 = \<lparr>entry_id = ''1'', chemical_formula_descriptive = Some ''SiO2'',
            chemical_formula_reduced = None, chemical_formula_anonymous = None,
            chemical_formula_hill = None\<rparr>"

definition example_body :: response where
  "example_body =
     \<lparr>errors = None, data = Some [sio2],
      meta = Some \<lparr>api_version = Some ''1.0.0'', data_returned = Some 1\<rparr>,
      links = Some \<lparr>links_next = None\<rparr>\<rparr>"




section \<open>Auxiliary facts\<close>

text \<open>\<^verbatim>\<open>_query\<close> changes the list of sent requests only, and reads four attributes.\<close>

lemma query_state: "snd (query net link s) = s\<lparr>sent := sent (snd (query net link s))\<rparr>"
  by (simp add: query_def Let_def split: option.splits http_result.splits)

lemma query_fst_cong:
  "database s' = database s \<Longrightarrow> filters_value s' = filters_value s \<Longrightarrow>
   page_limit s' = page_limit s \<Longrightarrow> offset s' = offset s \<Longrightarrow>
   fst (query net link s') = fst (query net link s)"
  by (simp add: query_def Let_def split: option.splits http_result.splits)

lemma query_sent_cong:
  "database s' = database s \<Longrightarrow> filters_value s' = filters_value s \<Longrightarrow>
   page_limit s' = page_limit s \<Longrightarrow> offset s' = offset s \<Longrightarrow> sent s' = sent s \<Longrightarrow>
   sent (snd (query net link s')) = sent (snd (query net link s))"
  by (simp add: query_def Let_def split: option.splits http_result.splits)

lemma update_structures_cases:
  "update_structures d s =
     (case collect_structures d [] of
        Inl e \<Rightarrow> (Some e, s)
      | Inr st \<Rightarrow> (None, s\<lparr>structure_drop_options := st\<rparr>))"
  by (simp add: update_structures_def)

text \<open>The outcome of the response processing, and the state it leaves, read off the
  outcome.\<close>

lemma retrieve_data_response_fst:
  "fst (retrieve_data_response raw s) =
     (case handle_errors raw (debug s) of
        Inl e \<Rightarrow> Raised e
      | Inr msg \<Rightarrow>
          if msg \<noteq> NoMsg then ErrorDisplayed msg
          else (case validate_api_version (api_version_of raw) of
                  Inl e \<Rightarrow> Raised e
                | Inr u \<Rightarrow>
                    (case raw_data raw of
                       None \<Rightarrow> Raised (KeyError ''data'')
                     | Some d \<Rightarrow>
                         (case collect_structures d [] of
                            Inl e \<Rightarrow> Raised e
                          | Inr st \<Rightarrow> Success raw))))"
  by (simp add: retrieve_data_response_def update_structures_def split: sum.splits option.splits)

lemma get_more_results_response_fst:
  "fst (get_more_results_response raw s) =
     (case handle_errors raw (debug s) of
        Inl e \<Rightarrow> Raised e
      | Inr msg \<Rightarrow>
          if msg \<noteq> NoMsg then ErrorDisplayed msg
          else (case raw_data raw of
                       None \<Rightarrow> Raised (KeyError ''data'')
                     | Some d \<Rightarrow>
                         (case collect_structures d [] of
                            Inl e \<Rightarrow> Raised e
                          | Inr st \<Rightarrow> Success raw)))"
  by (simp add: get_more_results_response_def update_structures_def split: sum.splits option.splits)

lemma retrieve_data_response_snd:
  "snd (retrieve_data_response raw s) =
     (case fst (retrieve_data_response raw s) of
        Raised e \<Rightarrow> s
      | ErrorDisplayed msg \<Rightarrow> s\<lparr>error_or_status_messages := msg\<rparr>
      | Success r \<Rightarrow>
          s\<lparr>structure_drop_options :=
               (case collect_structures (the (raw_data r)) [] of Inr st \<Rightarrow> st | Inl e \<Rightarrow> []),
            structure_page_chooser :=
               set_pagination_data (Some (data_returned_of r)) (Some (links_of r)) True
                 (structure_page_chooser s)\<rparr>)"
  by (simp add: retrieve_data_response_def update_structures_def split: sum.splits option.splits)

lemma get_more_results_response_snd:
  "snd (get_more_results_response raw s) =
     (case fst (get_more_results_response raw s) of
        Raised e \<Rightarrow> s
      | ErrorDisplayed msg \<Rightarrow> s\<lparr>error_or_status_messages := msg\<rparr>
      | Success r \<Rightarrow>
          s\<lparr>structure_drop_options :=
               (case collect_structures (the (raw_data r)) [] of Inr st \<Rightarrow> st | Inl e \<Rightarrow> []),
            structure_page_chooser :=
               set_pagination_data None (Some (links_of r)) False
                 (structure_page_chooser s)\<rparr>)"
  by (simp add: get_more_results_response_def update_structures_def split: sum.splits option.splits)


lemma finally_block_fields:
  "offset (finally_block s) = offset s"
  "sent (finally_block s) = sent s"
  "debug (finally_block s) = debug s"
  "error_or_status_messages (finally_block s) = error_or_status_messages s"
  "structure_drop_options (finally_block s) = structure_drop_options s"
  "total_count (structure_page_chooser (finally_block s)) = total_count (structure_page_chooser s)"
  "next_link (structure_page_chooser (finally_block s)) = next_link (structure_page_chooser s)"
  by (simp_all add: finally_block_def unfreeze_def)

lemma finally_block_controls:
  "query_button (finally_block s) =
     \<lparr>description = ''Search'', icon = ''search'', tooltip = ''Search'', disabled = False\<rparr>"
  "filters_frozen (finally_block s) = False"
  "structure_drop_frozen (finally_block s) = False"
  "chooser_frozen (structure_page_chooser (finally_block s)) = False"
  by (simp_all add: finally_block_def unfreeze_def)

lemma retrieve_data_try_cases:
  "retrieve_data_try net s =
     (let s3 = s\<lparr>query_button := \<lparr>description = ''Querying ... '', icon = ''cog'',
                     tooltip = ''Please wait ...'', disabled = True\<rparr>,
                 filters_frozen := True, structure_drop_frozen := True,
                 structure_page_chooser := (structure_page_chooser s)\<lparr>chooser_frozen := True\<rparr>,
                 error_or_status_messages := NoMsg,
                 sent := sent (snd (query net None s))\<rparr>
      in case fst (query net None s) of
           Inl e \<Rightarrow> (Raised e, s3)
         | Inr raw \<Rightarrow> retrieve_data_response raw s3)"
proof -
  define s3 where "s3 = (let s1 = freeze s;
          s2 = (if error_or_status_messages s1 \<noteq> NoMsg
                then s1\<lparr>error_or_status_messages := NoMsg\<rparr> else s1)
       in s2\<lparr>query_button := (query_button s2)\<lparr>description := ''Querying ... '',
                  icon := ''cog'', tooltip := ''Please wait ...''\<rparr>\<rparr>)"
  have f: "fst (query net None s3) = fst (query net None s)"
    by (rule query_fst_cong) (simp_all add: s3_def freeze_def Let_def)
  have g: "sent (snd (query net None s3)) = sent (snd (query net None s))"
    by (rule query_sent_cong) (simp_all add: s3_def freeze_def Let_def)
  have h: "snd (query net None s3) = s3\<lparr>sent := sent (snd (query net None s))\<rparr>"
    using query_state [of net None s3] g by simp
  have e: "s3\<lparr>sent := sent (snd (query net None s))\<rparr> =
     s\<lparr>query_button := \<lparr>description = ''Querying ... '', icon = ''cog'',
                     tooltip = ''Please wait ...'', disabled = True\<rparr>,
                 filters_frozen := True, structure_drop_frozen := True,
                 structure_page_chooser := (structure_page_chooser s)\<lparr>chooser_frozen := True\<rparr>,
                 error_or_status_messages := NoMsg,
                 sent := sent (snd (query net None s))\<rparr>"
    by (simp add: s3_def freeze_def Let_def)
  have "retrieve_data_try net s =
      (case query net None s3 of (Inl e, s4) \<Rightarrow> (Raised e, s4)
         | (Inr raw, s4) \<Rightarrow> retrieve_data_response raw s4)"
    by (simp add: retrieve_data_try_def s3_def Let_def)
  also have "\<dots> = (case fst (query net None s3) of
         Inl e \<Rightarrow> (Raised e, snd (query net None s3))
       | Inr raw \<Rightarrow> retrieve_data_response raw (snd (query net None s3)))"
    by (simp split: prod.splits sum.splits)
  finally show ?thesis
    unfolding f h e by (simp add: Let_def)
qed


lemma get_more_results_try_cases:
  "get_more_results_try net link s =
     (let s2 = s\<lparr>query_button := \<lparr>description = ''Updating ... '', icon = ''cog'',
                     tooltip = ''Please wait ...'', disabled = True\<rparr>,
                 filters_frozen := True, structure_drop_frozen := True,
                 structure_page_chooser := (structure_page_chooser s)\<lparr>chooser_frozen := True\<rparr>,
                 sent := sent (snd (query net link s))\<rparr>
      in case fst (query net link s) of
           Inl e \<Rightarrow> (Raised e, s2)
         | Inr raw \<Rightarrow> get_more_results_response raw s2)"
proof -
  define s2 where "s2 = (let s1 = freeze s
       in s1\<lparr>query_button := (query_button s1)\<lparr>description := ''Updating ... '',
                  icon := ''cog'', tooltip := ''Please wait ...''\<rparr>\<rparr>)"
  have f: "fst (query net link s2) = fst (query net link s)"
    by (rule query_fst_cong) (simp_all add: s2_def freeze_def Let_def)
  have g: "sent (snd (query net link s2)) = sent (snd (query net link s))"
    by (rule query_sent_cong) (simp_all add: s2_def freeze_def Let_def)
  have h: "snd (query net link s2) = s2\<lparr>sent := sent (snd (query net link s))\<rparr>"
    using query_state [of net link s2] g by simp
  have e: "s2\<lparr>sent := sent (snd (query net link s))\<rparr> =
     s\<lparr>query_button := \<lparr>description = ''Updating ... '', icon = ''cog'',
                     tooltip = ''Please wait ...'', disabled = True\<rparr>,
                 filters_frozen := True, structure_drop_frozen := True,
                 structure_page_chooser := (structure_page_chooser s)\<lparr>chooser_frozen := True\<rparr>,
                 sent := sent (snd (query net link s))\<rparr>"
    by (simp add: s2_def freeze_def Let_def)
  have "get_more_results_try net link s =
      (case query net link s2 of (Inl e, s3) \<Rightarrow> (Raised e, s3)
         | (Inr raw, s3) \<Rightarrow> get_more_results_response raw s3)"
    by (simp add: get_more_results_try_def s2_def Let_def)
  also have "\<dots> = (case fst (query net link s2) of
         Inl e \<Rightarrow> (Raised e, snd (query net link s2))
       | Inr raw \<Rightarrow> get_more_results_response raw (snd (query net link s2)))"
    by (simp split: prod.splits sum.splits)
  finally show ?thesis
    unfolding f h e by (simp add: Let_def)
qed

lemma response_fst_debug:
  "debug s' = debug s \<Longrightarrow> fst (retrieve_data_response raw s') = fst (retrieve_data_response raw s)"
  "debug s' = debug s \<Longrightarrow>
     fst (get_more_results_response raw s') = fst (get_more_results_response raw s)"
  by (simp_all add: retrieve_data_response_fst get_more_results_response_fst)

lemma retrieve_data_outcome:
  "fst (retrieve_data net s) =
     (case fst (query net None s) of
        Inl e \<Rightarrow> Raised e
      | Inr raw \<Rightarrow> fst (retrieve_data_response raw s))"
proof (cases "fst (query net None s)")
  case (Inl e)
  then show ?thesis
    by (simp add: retrieve_data_def retrieve_data_try_cases Let_def)
next
  case (Inr raw)
  then show ?thesis
    by (simp add: retrieve_data_def retrieve_data_try_cases Let_def retrieve_data_response_fst
        case_prod_unfold)
qed

lemma get_more_results_try_outcome:
  "fst (get_more_results_try net link s) =
     (case fst (query net link s) of
        Inl e \<Rightarrow> Raised e
      | Inr raw \<Rightarrow> fst (get_more_results_response raw s))"
proof (cases "fst (query net link s)")
  case (Inl e)
  then show ?thesis
    by (simp add: get_more_results_try_cases Let_def)
next
  case (Inr raw)
  then show ?thesis
    by (simp add: get_more_results_try_cases Let_def get_more_results_response_fst)
qed

lemma get_more_results_outcome:
  "fst (get_more_results net (Link l) s) =
     (case fst (query net (Some l) s) of
        Inl e \<Rightarrow> Raised e
      | Inr raw \<Rightarrow> fst (get_more_results_response raw s))"
  "fst (get_more_results net (Offset n) s) =
     (case fst (query net None (s\<lparr>offset := n\<rparr>)) of
        Inl e \<Rightarrow> Raised e
      | Inr raw \<Rightarrow> fst (get_more_results_response raw s))"
proof -
  have "fst (get_more_results_response raw (s\<lparr>offset := n\<rparr>)) = fst (get_more_results_response raw s)"
    for raw
    by (rule response_fst_debug) simp
  then show "fst (get_more_results net (Offset n) s) =
     (case fst (query net None (s\<lparr>offset := n\<rparr>)) of
        Inl e \<Rightarrow> Raised e
      | Inr raw \<Rightarrow> fst (get_more_results_response raw s))"
    by (simp add: get_more_results_def get_more_results_try_outcome case_prod_unfold split: sum.splits)
  show "fst (get_more_results net (Link l) s) =
     (case fst (query net (Some l) s) of
        Inl e \<Rightarrow> Raised e
      | Inr raw \<Rightarrow> fst (get_more_results_response raw s))"
    by (simp add: get_more_results_def get_more_results_try_outcome case_prod_unfold)
qed


lemma retrieve_data_state:
  "snd (retrieve_data net s) =
     finally_block
      (let s3 = s\<lparr>query_button := \<lparr>description = ''Querying ... '', icon = ''cog'',
                     tooltip = ''Please wait ...'', disabled = True\<rparr>,
                 filters_frozen := True, structure_drop_frozen := True,
                 structure_page_chooser := (structure_page_chooser s)\<lparr>chooser_frozen := True\<rparr>,
                 error_or_status_messages := NoMsg,
                 sent := sent (snd (query net None s))\<rparr>
       in case fst (retrieve_data net s) of
            Raised e \<Rightarrow> s3
          | ErrorDisplayed msg \<Rightarrow> s3\<lparr>error_or_status_messages := msg\<rparr>
          | Success r \<Rightarrow>
              s3\<lparr>structure_drop_options :=
                   (case collect_structures (the (raw_data r)) [] of Inr st \<Rightarrow> st | Inl e \<Rightarrow> []),
                 structure_page_chooser :=
                   set_pagination_data (Some (data_returned_of r)) (Some (links_of r)) True
                     (structure_page_chooser s3)\<rparr>)"
proof (cases "fst (query net None s)")
  case (Inl e)
  then show ?thesis
    by (simp add: retrieve_data_def retrieve_data_try_cases Let_def)
next
  case (Inr raw)
  let ?E = "s\<lparr>query_button := \<lparr>description = ''Querying ... '', icon = ''cog'',
                     tooltip = ''Please wait ...'', disabled = True\<rparr>,
                 filters_frozen := True, structure_drop_frozen := True,
                 structure_page_chooser := (structure_page_chooser s)\<lparr>chooser_frozen := True\<rparr>,
                 error_or_status_messages := NoMsg,
                 sent := sent (snd (query net None s))\<rparr>"
  have r: "retrieve_data net s = (fst (retrieve_data_response raw ?E),
        finally_block (snd (retrieve_data_response raw ?E)))"
    using Inr by (simp add: retrieve_data_def retrieve_data_try_cases Let_def case_prod_unfold)
  show ?thesis
    unfolding r Let_def fst_conv snd_conv
    by (subst retrieve_data_response_snd) (rule refl)
qed


lemma get_more_results_try_state:
  "snd (get_more_results_try net link s) =
      (let s2 = s\<lparr>query_button := \<lparr>description = ''Updating ... '', icon = ''cog'',
                     tooltip = ''Please wait ...'', disabled = True\<rparr>,
                 filters_frozen := True, structure_drop_frozen := True,
                 structure_page_chooser := (structure_page_chooser s)\<lparr>chooser_frozen := True\<rparr>,
                 sent := sent (snd (query net link s))\<rparr>
       in case fst (get_more_results_try net link s) of
            Raised e \<Rightarrow> s2
          | ErrorDisplayed msg \<Rightarrow> s2\<lparr>error_or_status_messages := msg\<rparr>
          | Success r \<Rightarrow>
              s2\<lparr>structure_drop_options :=
                   (case collect_structures (the (raw_data r)) [] of Inr st \<Rightarrow> st | Inl e \<Rightarrow> []),
                 structure_page_chooser :=
                   set_pagination_data None (Some (links_of r)) False
                     (structure_page_chooser s2)\<rparr>)"
proof (cases "fst (query net link s)")
  case (Inl e)
  then show ?thesis
    by (simp add: get_more_results_try_cases Let_def)
next
  case (Inr raw)
  let ?E = "s\<lparr>query_button := \<lparr>description = ''Updating ... '', icon = ''cog'',
                     tooltip = ''Please wait ...'', disabled = True\<rparr>,
                 filters_frozen := True, structure_drop_frozen := True,
                 structure_page_chooser := (structure_page_chooser s)\<lparr>chooser_frozen := True\<rparr>,
                 sent := sent (snd (query net link s))\<rparr>"
  have r: "get_more_results_try net link s = get_more_results_response raw ?E"
    using Inr by (simp add: get_more_results_try_cases Let_def)
  show ?thesis
    unfolding r Let_def
    by (subst get_more_results_response_snd) (rule refl)
qed


lemma run_outcome:
  "fst (run net c s) =
     (case response_of net c s of
        Inl e \<Rightarrow> Raised e
      | Inr raw \<Rightarrow>
          (case c of
             NewQuery \<Rightarrow> fst (retrieve_data_response raw s)
           | AdvancePage change_new \<Rightarrow> fst (get_more_results_response raw s)))"
proof (cases c)
  case NewQuery
  then show ?thesis
    by (simp add: run_def response_of_def retrieve_data_outcome split: sum.splits)
next
  case (AdvancePage change_new)
  then show ?thesis
    by (cases change_new)
      (simp_all add: run_def response_of_def get_more_results_outcome split: sum.splits)
qed

lemma run_message:
  "error_or_status_messages (snd (run net c s)) =
     (case fst (run net c s) of
        ErrorDisplayed m \<Rightarrow> m
      | _ \<Rightarrow> (case c of NewQuery \<Rightarrow> NoMsg | AdvancePage change_new \<Rightarrow> error_or_status_messages s))"
proof (cases c)
  case NewQuery
  then show ?thesis
    by (simp add: run_def retrieve_data_state Let_def finally_block_fields split: outcome.splits)
next
  case (AdvancePage change_new)
  then show ?thesis
    by (cases change_new)
      (simp_all add: run_def get_more_results_def case_prod_unfold get_more_results_try_state
        Let_def finally_block_fields split: outcome.splits)
qed


lemma run_chooser:
  "structure_page_chooser (snd (run net c s)) =
     (case fst (run net c s) of
        Success r \<Rightarrow>
          (case c of
             NewQuery \<Rightarrow> \<lparr>chooser_frozen = False, total_count = Some (data_returned_of r),
                          next_link = links_next (links_of r)\<rparr>
           | AdvancePage change_new \<Rightarrow>
               (structure_page_chooser s)\<lparr>chooser_frozen := False,
                  next_link := links_next (links_of r)\<rparr>)
      | _ \<Rightarrow> (structure_page_chooser s)\<lparr>chooser_frozen := False\<rparr>)"
proof (cases c)
  case NewQuery
  then show ?thesis
    by (simp add: run_def retrieve_data_state Let_def finally_block_def unfreeze_def
        set_pagination_data_def split: outcome.splits)
next
  case (AdvancePage change_new)
  then show ?thesis
    by (cases change_new)
      (simp_all add: run_def get_more_results_def case_prod_unfold get_more_results_try_state
        Let_def finally_block_def unfreeze_def set_pagination_data_def split: outcome.splits)
qed

lemma run_offset:
  "offset (snd (run net c s)) =
     (case c of
        NewQuery \<Rightarrow> offset s
      | AdvancePage (Offset n) \<Rightarrow> n
      | AdvancePage (Link l) \<Rightarrow> offset s)"
proof (cases c)
  case NewQuery
  then show ?thesis
    by (simp add: run_def retrieve_data_state Let_def finally_block_fields split: outcome.splits)
next
  case (AdvancePage change_new)
  then show ?thesis
    by (cases change_new)
      (simp_all add: run_def get_more_results_def case_prod_unfold get_more_results_try_state
        Let_def finally_block_fields split: outcome.splits)
qed


lemma run_controls:
  "query_button (snd (run net c s)) =
     \<lparr>description = ''Search'', icon = ''search'', tooltip = ''Search'', disabled = False\<rparr>"
  "filters_frozen (snd (run net c s)) = False"
  "structure_drop_frozen (snd (run net c s)) = False"
  "chooser_frozen (structure_page_chooser (snd (run net c s))) = False"
  by (simp_all add: run_def retrieve_data_def get_more_results_def case_prod_unfold
      finally_block_controls split: command.splits)


lemma collect_structures_ok:
  "(\<forall>x\<in>set d. formula_of x \<noteq> None) \<Longrightarrow>
   collect_structures d acc = Inr (acc @ map (\<lambda>e. (entry_name (the (formula_of e)) e, e)) d)"
  by (induction d arbitrary: acc) auto




text \<open>Unfolding the model on concrete inputs.\<close>

lemmas model_defs =
  run_def retrieve_data_def retrieve_data_try_def retrieve_data_response_def
  get_more_results_def get_more_results_try_def get_more_results_response_def
  query_def perform_optimade_query_def handle_errors_def validate_api_version_def
  major_version_def set_pagination_data_def update_structures_def formula_of_def
  entry_name_def finally_block_def freeze_def unfreeze_def compose_filter_def
  api_version_of_def data_returned_of_def links_of_def raw_data_def raw_meta_def raw_links_def
  decode_failed_def init_def select_database_def on_database_select_def response_of_def

lemma example_widget_eq:
  "example_widget =
     \<lparr>debug = False, page_limit = 10, offset = 0,
      database = (''example'', Some [(''base_url'', ''https://example.org/optimade'')]),
      filters_value = [], filters_frozen = False,
      query_button = \<lparr>description = ''Search'', icon = ''search'', tooltip = ''Search'',
                       disabled = False\<rparr>,
      structure_drop_options = [], structure_drop_frozen = True,
      error_or_status_messages = NoMsg,
      structure_page_chooser = \<lparr>chooser_frozen = False, total_count = None, next_link = None\<rparr>,
      sent = []\<rparr>"
  by (simp add: example_widget_def init_def select_database_def on_database_select_def)

section \<open>The claims\<close>

text \<open>
  A command is one of the two events; \<open>run net c s\<close> is \<^verbatim>\<open>retrieve_data\<close> or
  \<^verbatim>\<open>_get_more_results\<close> started in state \<open>s\<close> on the network \<open>net\<close>, and
  \<open>response_of net c s\<close> is what its call of \<^verbatim>\<open>_query\<close> returns or raises.
\<close>

subsection \<open>C1: how a command ends\<close>




subsection \<open>C2: the offset of a new query\<close>

text \<open>
  C2 says that a new query resets the offset to 0 before the request is issued, so that the
  request of a new query always carries offset 0.  \<^verbatim>\<open>retrieve_data\<close> never assigns
  \<^verbatim>\<open>self.offset\<close>: after a page advance to offset 10, the next new query sends a request
  with \<^verbatim>\<open>offset = 10\<close> again, although it passes \<^verbatim>\<open>reset_cache=True\<close> to the page
  chooser afterwards.  The statement evaluates the two commands on the example widget.
\<close>

theorem stale_offset_in_new_query:
  "offset (snd (get_more_results (\<lambda>req. JSON example_body) (Offset 10) example_widget)) = 10 \<and>
   sent (snd (retrieve_data (\<lambda>req. JSON example_body)
          (snd (get_more_results (\<lambda>req. JSON example_body) (Offset 10) example_widget)))) =
     [GetQuery \<lparr>q_base_url = ''https://example.org/optimade'', q_filter = add_to_filter,
                q_format = ''json'', q_email = None, q_fields = None,
                q_limit = 10, q_offset = 10\<rparr>,
      GetQuery \<lparr>q_base_url = ''https://example.org/optimade'', q_filter = add_to_filter,
                q_format = ''json'', q_email = None, q_fields = None,
                q_limit = 10, q_offset = 10\<rparr>]"
  by (simp add: example_widget_eq example_body_def sio2_def model_defs)

subsection \<open>C3: the composed filter\<close>

text \<open>
  C3 as stated fails for a fragment that is blank but not empty: \<^verbatim>\<open>if filter_\<close> is true of
  a string of spaces, which is wrapped like any other fragment.
\<close>

theorem blank_fragment_is_wrapped:
  "compose_filter '' '' = ''(   ) AND ( '' @ add_to_filter @ '' )'' \<and>
   compose_filter '' '' \<noteq> add_to_filter"
  by (simp add: compose_filter_def add_to_filter_def)

text \<open>
  C3, amended: the empty fragment gives the exclusion predicate alone, and every non-empty
  fragment \<open>X\<close>, blank or not, gives \<^verbatim>\<open>"( X ) AND ( " + exclusionPredicate + " )"\<close>.
\<close>

theorem compose_filter_cases:
  "compose_filter [] = add_to_filter \<and>
   (X \<noteq> [] \<longrightarrow> compose_filter X = ''( '' @ X @ '' ) AND ( '' @ add_to_filter @ '' )'')"
  by (simp add: compose_filter_def)

theorem compose_filter_cases_witness:
  "compose_filter [] = add_to_filter \<and> ''nelements=2'' \<noteq> [] \<and>
   compose_filter ''nelements=2'' = ''( nelements=2 ) AND ( '' @ add_to_filter @ '' )''"
  using compose_filter_cases [of "''nelements=2''"] by simp

subsection \<open>C4: errors reported by the server\<close>



subsection \<open>C5: the request of a page advance\<close>


subsection \<open>C6: the version gate\<close>




subsection \<open>C7: the executor on a failing GET\<close>

text \<open>
  C7 says that the executor never raises, also for the GET of a pagination link.  With a
  link, \<^verbatim>\<open>_query\<close> guards \<^verbatim>\<open>requests.get(link).json()\<close> against \<^verbatim>\<open>JSONDecodeError\<close>
  only: a connection failure raises out of \<^verbatim>\<open>_query\<close> and out of
  \<^verbatim>\<open>_get_more_results\<close>, and no message is displayed.  The statement
  evaluates the page advance on the example widget with a network that fails.
\<close>

theorem link_get_failure_raises:
  "query (\<lambda>req. ConnectionFailed ''timed out'') (Some ''https://example.org/page2'') example_widget =
     (Inl (ConnectionError ''timed out''),
      example_widget\<lparr>sent := [GetLink ''https://example.org/page2'']\<rparr>) \<and>
   fst (get_more_results (\<lambda>req. ConnectionFailed ''timed out'')
          (Link ''https://example.org/page2'') example_widget) =
     Raised (ConnectionError ''timed out'') \<and>
   error_or_status_messages (snd (get_more_results (\<lambda>req. ConnectionFailed ''timed out'')
          (Link ''https://example.org/page2'') example_widget)) = NoMsg"
  by (simp add: example_widget_eq model_defs)

subsection \<open>C8: a failed transport\<close>

text \<open>
  C8 says that the pagination state is as before after a transport error.  A page advance
  to an offset stores the offset before the \<^verbatim>\<open>try\<close> block, so it stays changed when the
  request fails.
\<close>

theorem offset_changed_on_transport_failure:
  "fst (get_more_results (\<lambda>req. ConnectionFailed ''timed out'') (Offset 20) example_widget) =
     ErrorDisplayed (TransportError ''timed out'') \<and>
   offset example_widget = 0 \<and>
   offset (snd (get_more_results (\<lambda>req. ConnectionFailed ''timed out'') (Offset 20)
      example_widget)) = 20"
  by (simp add: example_widget_eq model_defs)

text \<open>
  C8, amended: when the command's query returns the transport-failed marker, the transport
  error is displayed, and the total count and the next link of the page chooser are as
  before; the offset is as before after a new query, and is the requested offset after a
  page advance to an offset.
\<close>

theorem transport_failure:
  assumes "response_of net c s = Inr (TransportFailed t)"
  shows "fst (run net c s) = ErrorDisplayed (TransportError t) \<and>
         error_or_status_messages (snd (run net c s)) = TransportError t \<and>
         total_count (structure_page_chooser (snd (run net c s))) =
           total_count (structure_page_chooser s) \<and>
         next_link (structure_page_chooser (snd (run net c s))) =
           next_link (structure_page_chooser s) \<and>
         offset (snd (run net c s)) =
           (case c of
              NewQuery \<Rightarrow> offset s
            | AdvancePage (Offset n) \<Rightarrow> n
            | AdvancePage (Link l) \<Rightarrow> offset s)"
proof -
  have h: "handle_errors (TransportFailed t) (debug s) = Inr (TransportError t)"
    by (simp add: handle_errors_def)
  have out: "fst (run net c s) = ErrorDisplayed (TransportError t)"
    using assms h
    by (cases c)
      (simp_all add: run_outcome retrieve_data_response_fst get_more_results_response_fst)
  then show ?thesis
    by (simp add: run_message run_chooser run_offset)
qed

theorem transport_failure_witness:
  "response_of (\<lambda>req. ConnectionFailed ''timed out'') NewQuery
      (example_widget\<lparr>offset := 30\<rparr>) = Inr (TransportFailed ''timed out'') \<and>
   fst (run (\<lambda>req. ConnectionFailed ''timed out'') NewQuery (example_widget\<lparr>offset := 30\<rparr>)) =
     ErrorDisplayed (TransportError ''timed out'') \<and>
   offset (snd (run (\<lambda>req. ConnectionFailed ''timed out'') NewQuery
      (example_widget\<lparr>offset := 30\<rparr>))) = 30 \<and>
   total_count (structure_page_chooser (snd (run (\<lambda>req. ConnectionFailed ''timed out'') NewQuery
      (example_widget\<lparr>offset := 30\<rparr>)))) = None \<and>
   next_link (structure_page_chooser (snd (run (\<lambda>req. ConnectionFailed ''timed out'') NewQuery
      (example_widget\<lparr>offset := 30\<rparr>)))) = None"
proof -
  have r: "response_of (\<lambda>req. ConnectionFailed ''timed out'') NewQuery
      (example_widget\<lparr>offset := 30\<rparr>) = Inr (TransportFailed ''timed out'')"
    by (simp add: response_of_def query_def perform_optimade_query_def example_widget_eq)
  from transport_failure [OF r] r show ?thesis
    by (simp add: example_widget_eq)
qed

subsection \<open>C9: what a success records\<close>



subsection \<open>C10: the controls after a command\<close>

text \<open>
  C10: whatever a command does (the results are set, a message is displayed, or an
  exception leaves the method), the \<^verbatim>\<open>finally\<close> block has run when it ends: the query button
  shows the description, icon and tooltip of the search state and is enabled, and the
  filters, the structure dropdown and the page chooser are unfrozen.
\<close>

theorem controls_restored:
  "query_button (snd (run net c s)) =
     \<lparr>description = ''Search'', icon = ''search'', tooltip = ''Search'', disabled = False\<rparr> \<and>
   \<not> filters_frozen (snd (run net c s)) \<and>
   \<not> structure_drop_frozen (snd (run net c s)) \<and>
   \<not> chooser_frozen (structure_page_chooser (snd (run net c s)))"
  by (simp add: run_controls)

end
